theory Spec2Isabelle
  imports Main "HOL-Library.Word"
begin

section \<open>Values of the platform\<close>

text \<open>
  A JavaScript string is a sequence of 16-bit code units. The literals of the source are
  ASCII and are written as HOL strings; \<open>ascii\<close> turns one into code units where it meets
  text that comes from the user or from the backend.
\<close>

type_synonym jsstring = "16 word list"

definition ascii :: "string \<Rightarrow> jsstring" where
  "ascii s = map of_char s"

text \<open>
  \<open>String.prototype.trim\<close> removes, at both ends, the code units that ECMAScript calls
  WhiteSpace (TAB, VT, FF, SP, NBSP, ZWNBSP and the category Zs) or LineTerminator
  (LF, CR, LS, PS).
\<close>

definition isWhiteSpace :: "16 word \<Rightarrow> bool" where
  "isWhiteSpace c \<longleftrightarrow>
     c \<in> {0x09, 0x0A, 0x0B, 0x0C, 0x0D, 0x20, 0xA0, 0x1680,
          0x2028, 0x2029, 0x202F, 0x205F, 0x3000, 0xFEFF}
     \<or> (0x2000 \<le> c \<and> c \<le> 0x200A)"

definition trim :: "jsstring \<Rightarrow> jsstring" where
  "trim s = rev (dropWhile isWhiteSpace (rev (dropWhile isWhiteSpace s)))"

text \<open>
  The values that travel in request bodies. A number is kept as the decimal literal
  \<open>m / 10 ^ k\<close>; an object keeps its keys in insertion order.
\<close>

datatype jsnumber = Decimal int nat

datatype jsvalue =
    JStr jsstring
  | JNum jsnumber
  | JObj "(string \<times> jsvalue) list"


text \<open>
  The clock. \<open>new Date()\<close> reads it; \<open>toISOString\<close> prints the UTC fields as
  \<open>YYYY-MM-DDTHH:mm:ss.sssZ\<close>, with a sign and six digits for a year outside 0..9999.
  The record holds the fields as they are printed (the month from 1 to 12), and
  \<open>digits w n\<close> is \<open>n\<close> in \<open>w\<close> decimal digits, zeros in front.
\<close>

record date_time =
  year :: int
  month :: nat
  day :: nat
  hours :: nat
  minutes :: nat
  seconds :: nat
  milliseconds :: nat

definition digit :: "nat \<Rightarrow> char" where
  "digit d = ''0123456789'' ! d"

fun digits :: "nat \<Rightarrow> nat \<Rightarrow> string" where
  "digits 0 n = []"
| "digits (Suc w) n = digits w (n div 10) @ [digit (n mod 10)]"

definition year_digits :: "int \<Rightarrow> string" where
  "year_digits y =
     (if 0 \<le> y \<and> y \<le> 9999 then digits 4 (nat y)
      else (if y < 0 then ''-'' else ''+'') @ digits 6 (nat \<bar>y\<bar>))"

definition toISOString :: "date_time \<Rightarrow> string" where
  "toISOString d =
     year_digits (year d) @ ''-'' @ digits 2 (month d) @ ''-'' @ digits 2 (day d) @ ''T''
     @ digits 2 (hours d) @ '':'' @ digits 2 (minutes d) @ '':'' @ digits 2 (seconds d)
     @ ''.'' @ digits 3 (milliseconds d) @ ''Z''"

text \<open>\<open>s.split('T')[0]\<close>: what stands before the first \<open>T\<close>, all of \<open>s\<close> when there is none.\<close>

definition split_T_0 :: "string \<Rightarrow> string" where
  "split_T_0 s = takeWhile (\<lambda>c. c \<noteq> CHR ''T'') s"

section \<open>The backend as the client sees it\<close>

datatype http_method = GET | POST

record http_request =
  meth :: http_method
  url :: string
  body :: "jsvalue option"

text \<open>
  \<open>axios\<close> rejects the promise of a call when the network fails or the status is not 2xx.
  An awaited call either resolves with \<open>response.data\<close> or rejects with the error.
\<close>

datatype axios_error = NetworkError | BadStatus nat

datatype 'a outcome = Resolved 'a | Rejected axios_error

text \<open>
  The payloads have the shape the REST surface gives them: a chat entry is
  \<open>{message, response}\<close>, a weather snapshot
  \<open>{temperature, feels_like, humidity, condition, location}\<close>, a news item
  \<open>{title, source, time}\<close>.
\<close>

datatype chat_entry = ChatEntry jsstring jsstring

datatype weather_snapshot = WeatherSnapshot jsnumber jsnumber jsnumber jsstring jsstring

datatype news_item = NewsItem jsstring jsstring jsstring

section \<open>The state of the component\<close>

record routine_form =
  sleep_hours :: jsstring
  water_glasses :: jsstring
  exercise_minutes :: jsstring
  mood :: jsstring

datatype toast = ToastSuccess string | ToastError string | ToastInfo string

datatype call_site = Chat | Routine | Weather | News | History

datatype tab = Daily | RoutineTab | NewsTab

datatype recognition_call = Start | Stop

datatype js_error = ReferenceError string

text \<open>
  The first eight fields are the \<open>useState\<close> hooks of \<open>App\<close>, and \<open>recognitionRef\<close> tells
  whether the ref holds a recogniser. The others record what the component does to the
  world: every request issued (\<open>sent\<close>), the calls not yet settled (\<open>inflight\<close>), the
  notifications raised, the lines written by \<open>console.error\<close>, the calls made on the
  recogniser, the errors that left a handler uncaught, and the error a render threw.
\<close>

record app =
  message :: jsstring
  chatHistory :: "chat_entry list"
  isLoading :: bool
  isListening :: bool
  weather :: "weather_snapshot option"
  news :: "news_item list"
  routine :: routine_form
  activeTab :: tab
  recognitionRef :: bool
  sent :: "http_request list"
  inflight :: "(call_site \<times> http_request) list"
  toasts :: "toast list"
  console :: "(string \<times> axios_error) list"
  recognition_calls :: "recognition_call list"
  unhandled :: "axios_error list"
  render_error :: "js_error option"

definition empty_routine :: routine_form where
  "empty_routine = \<lparr>sleep_hours = [], water_glasses = [], exercise_minutes = [], mood = []\<rparr>"

definition initial :: app where
  "initial = \<lparr>message = [], chatHistory = [], isLoading = False, isListening = False,
     weather = None, news = [], routine = empty_routine, activeTab = Daily,
     recognitionRef = False, sent = [], inflight = [], toasts = [], console = [],
     recognition_calls = [], unhandled = [], render_error = None\<rparr>"

text \<open>
  What the component is given from outside: \<open>REACT_APP_BACKEND_URL\<close> and whether the
  browser has a speech recogniser.
\<close>

record env =
  BACKEND_URL :: string
  speech_supported :: bool

definition API :: "env \<Rightarrow> string" where
  "API E = BACKEND_URL E @ ''/api''"

definition issue :: "call_site \<Rightarrow> http_request \<Rightarrow> app \<Rightarrow> app" where
  "issue site r st = st\<lparr>sent := sent st @ [r], inflight := inflight st @ [(site, r)]\<rparr>"

section \<open>The loaders\<close>

text \<open>
  An \<open>async\<close> handler is two functions: the part that runs up to the \<open>await\<close> and issues
  the call, and \<open>_resume\<close>, the part that runs when the call settles, in the state of that
  moment. The \<open>try\<close> block gives \<open>Inl\<close> when the awaited call rejects; the handler gives
  \<open>Inl\<close> when an error leaves it.
\<close>

definition loadWeather :: "env \<Rightarrow> app \<Rightarrow> app" where
  "loadWeather E st = issue Weather \<lparr>meth = GET, url = API E @ ''/weather'', body = None\<rparr> st"

definition loadWeather_try :: "weather_snapshot outcome \<Rightarrow> app \<Rightarrow> axios_error + app" where
  "loadWeather_try r st =
     (case r of Rejected e \<Rightarrow> Inl e | Resolved d \<Rightarrow> Inr (st\<lparr>weather := Some d\<rparr>))"

definition loadWeather_resume :: "weather_snapshot outcome \<Rightarrow> app \<Rightarrow> axios_error + app" where
  "loadWeather_resume r st =
     (case loadWeather_try r st of
        Inr st' \<Rightarrow> Inr st'
      | Inl e \<Rightarrow> Inr (st\<lparr>console := console st @ [(''Weather loading error:'', e)]\<rparr>))"

definition loadNews :: "env \<Rightarrow> app \<Rightarrow> app" where
  "loadNews E st = issue News \<lparr>meth = GET, url = API E @ ''/news'', body = None\<rparr> st"

definition loadNews_try :: "news_item list outcome \<Rightarrow> app \<Rightarrow> axios_error + app" where
  "loadNews_try r st =
     (case r of Rejected e \<Rightarrow> Inl e | Resolved d \<Rightarrow> Inr (st\<lparr>news := d\<rparr>))"

definition loadNews_resume :: "news_item list outcome \<Rightarrow> app \<Rightarrow> axios_error + app" where
  "loadNews_resume r st =
     (case loadNews_try r st of
        Inr st' \<Rightarrow> Inr st'
      | Inl e \<Rightarrow> Inr (st\<lparr>console := console st @ [(''News loading error:'', e)]\<rparr>))"

definition loadChatHistory :: "env \<Rightarrow> app \<Rightarrow> app" where
  "loadChatHistory E st =
     issue History \<lparr>meth = GET, url = API E @ ''/chat/history/default_user'', body = None\<rparr> st"

definition loadChatHistory_try :: "chat_entry list outcome \<Rightarrow> app \<Rightarrow> axios_error + app" where
  "loadChatHistory_try r st =
     (case r of Rejected e \<Rightarrow> Inl e | Resolved d \<Rightarrow> Inr (st\<lparr>chatHistory := d\<rparr>))"

definition loadChatHistory_resume :: "chat_entry list outcome \<Rightarrow> app \<Rightarrow> axios_error + app" where
  "loadChatHistory_resume r st =
     (case loadChatHistory_try r st of
        Inr st' \<Rightarrow> Inr st'
      | Inl e \<Rightarrow> Inr (st\<lparr>console := console st @ [(''Chat history loading error:'', e)]\<rparr>))"

section \<open>Sending a chat message\<close>

definition chat_body :: "jsstring \<Rightarrow> jsvalue" where
  "chat_body userMessage =
     JObj [(''message'', JStr userMessage),
           (''user_id'', JStr (ascii ''default_user'')),
           (''location'', JObj [(''lat'', JNum (Decimal 286139 4)),
                               (''lon'', JNum (Decimal 772090 4))])]"

definition chat_request :: "env \<Rightarrow> jsstring \<Rightarrow> http_request" where
  "chat_request E userMessage =
     \<lparr>meth = POST, url = API E @ ''/chat'', body = Some (chat_body userMessage)\<rparr>"

definition handleSendMessage :: "env \<Rightarrow> app \<Rightarrow> app" where
  "handleSendMessage E st =
     (if trim (message st) = [] then st
      else let userMessage = message st in
        issue Chat (chat_request E userMessage) (st\<lparr>message := [], isLoading := True\<rparr>))"

definition handleSendMessage_try :: "chat_entry outcome \<Rightarrow> app \<Rightarrow> axios_error + app" where
  "handleSendMessage_try r st =
     (case r of
        Rejected e \<Rightarrow> Inl e
      | Resolved d \<Rightarrow>
          Inr (st\<lparr>chatHistory := d # chatHistory st,
                  toasts := toasts st @ [ToastSuccess ''Got your recommendation!'']\<rparr>))"

definition handleSendMessage_catch :: "axios_error \<Rightarrow> app \<Rightarrow> app" where
  "handleSendMessage_catch e st =
     st\<lparr>console := console st @ [(''Chat error:'', e)],
        toasts := toasts st @ [ToastError ''Failed to get recommendation. Please try again.'']\<rparr>"

definition handleSendMessage_resume :: "chat_entry outcome \<Rightarrow> app \<Rightarrow> axios_error + app" where
  "handleSendMessage_resume r st =
     (case handleSendMessage_try r st of
        Inr st' \<Rightarrow> Inr (st'\<lparr>isLoading := False\<rparr>)
      | Inl e \<Rightarrow> Inr ((handleSendMessage_catch e st)\<lparr>isLoading := False\<rparr>))"

section \<open>Voice input\<close>

definition handleVoiceInput :: "app \<Rightarrow> app" where
  "handleVoiceInput st =
     (if \<not> recognitionRef st then
        st\<lparr>toasts := toasts st @ [ToastError ''Voice recognition not supported in this browser.'']\<rparr>
      else if isListening st then
        st\<lparr>recognition_calls := recognition_calls st @ [Stop], isListening := False\<rparr>
      else
        st\<lparr>recognition_calls := recognition_calls st @ [Start], isListening := True,
           toasts := toasts st @ [ToastInfo ''Listening... Speak now!'']\<rparr>)"

definition onresult :: "jsstring \<Rightarrow> app \<Rightarrow> app" where
  "onresult transcript st = st\<lparr>message := transcript, isListening := False\<rparr>"

definition onerror :: "app \<Rightarrow> app" where
  "onerror st =
     st\<lparr>isListening := False,
        toasts := toasts st @ [ToastError ''Voice recognition error. Please try again.'']\<rparr>"

definition onend :: "app \<Rightarrow> app" where
  "onend st = st\<lparr>isListening := False\<rparr>"

section \<open>Saving the routine\<close>

definition routine_body :: "date_time \<Rightarrow> routine_form \<Rightarrow> jsvalue" where
  "routine_body now r =
     JObj [(''user_id'', JStr (ascii ''default_user'')),
           (''date'', JStr (ascii (split_T_0 (toISOString now)))),
           (''sleep_hours'', JStr (sleep_hours r)),
           (''water_glasses'', JStr (water_glasses r)),
           (''exercise_minutes'', JStr (exercise_minutes r)),
           (''mood'', JStr (mood r))]"

definition routine_request :: "env \<Rightarrow> date_time \<Rightarrow> routine_form \<Rightarrow> http_request" where
  "routine_request E now r =
     \<lparr>meth = POST, url = API E @ ''/routine'', body = Some (routine_body now r)\<rparr>"

definition handleRoutineSave :: "env \<Rightarrow> date_time \<Rightarrow> app \<Rightarrow> app" where
  "handleRoutineSave E now st = issue Routine (routine_request E now (routine st)) st"

definition handleRoutineSave_try :: "unit outcome \<Rightarrow> app \<Rightarrow> axios_error + app" where
  "handleRoutineSave_try r st =
     (case r of
        Rejected e \<Rightarrow> Inl e
      | Resolved _ \<Rightarrow>
          Inr (st\<lparr>toasts := toasts st @ [ToastSuccess ''Routine saved successfully!''],
                  routine := \<lparr>sleep_hours = [], water_glasses = [],
                              exercise_minutes = [], mood = []\<rparr>\<rparr>))"

definition handleRoutineSave_resume :: "unit outcome \<Rightarrow> app \<Rightarrow> axios_error + app" where
  "handleRoutineSave_resume r st =
     (case handleRoutineSave_try r st of
        Inr st' \<Rightarrow> Inr st'
      | Inl e \<Rightarrow>
          Inr (st\<lparr>console := console st @ [(''Routine save error:'', e)],
                  toasts := toasts st @ [ToastError ''Failed to save routine.'']\<rparr>))"

section \<open>What is rendered\<close>

text \<open>
  The element that \<open>App\<close> returns names \<open>News\<close>, the icon of the third tab trigger, and the
  module binds no such name: its import list has \<open>Newspaper\<close>. The triggers are built
  whatever the state is, so evaluating the element throws a ReferenceError at every
  render, the first one included, and nothing is shown. What follows \<open>render\<close> in this
  section is read off the element all the same: it says which handler is bound to which
  control, and under what condition.
\<close>

definition render :: "app \<Rightarrow> js_error + unit" where
  "render st = Inl (ReferenceError ''News'')"

definition quickSuggestions :: "string list" where
  "quickSuggestions =
     [''What should I eat for breakfast?'',
      ''Suggest clothes for today's weather'',
      ''Plan my day activities'',
      ''Weekend entertainment ideas'']"

definition quickActions :: "string list" where
  "quickActions =
     [''What should I eat for lunch based on today's weather?'',
      ''Suggest clothes for today's weather'',
      ''Plan productive activities for today'']"

text \<open>
  The chat pane shows the suggestions while the history is empty, and otherwise
  \<open>chatHistory.slice().reverse()\<close>, one exchange after the other.
\<close>

datatype chat_pane = Suggestions "string list" | Exchanges "chat_entry list"

definition chat_messages :: "app \<Rightarrow> chat_pane" where
  "chat_messages st =
     (if length (chatHistory st) = 0 then Suggestions quickSuggestions
      else Exchanges (rev (chatHistory st)))"

text \<open>
  The \<open>disabled\<close> attribute of the send button: a disabled button does not run its
  \<open>onClick\<close>. The save button has no such attribute, and the input field, whose Enter
  key also sends, is never disabled.
\<close>

definition send_disabled :: "app \<Rightarrow> bool" where
  "send_disabled st \<longleftrightarrow> trim (message st) = [] \<or> isLoading st"

text \<open>The values of the options of the mood \<open>select\<close>.\<close>

datatype mood_option = SelectMood | Excellent | Good | Okay | Low

fun option_value :: "mood_option \<Rightarrow> string" where
  "option_value SelectMood = []"
| "option_value Excellent = ''excellent''"
| "option_value Good = ''good''"
| "option_value Okay = ''okay''"
| "option_value Low = ''low''"

section \<open>Events\<close>

text \<open>
  The two effects with an empty dependency list, which run once the first render has been
  committed: the recogniser is created when the browser has one, and the three loaders
  are called.
\<close>

definition mount_effects :: "env \<Rightarrow> app \<Rightarrow> app" where
  "mount_effects E st =
     loadChatHistory E (loadNews E (loadWeather E
       (if speech_supported E then st\<lparr>recognitionRef := True\<rparr> else st)))"

text \<open>
  The component runs one event at a time: mounting, what the user does to a control, what
  the recogniser reports, and the settling of a call in flight (named by its position
  among the calls in flight). Each handler sees the state the events before it left.
  \<open>KeyPress\<close> carries \<open>e.key\<close>, \<open>ClickSave\<close> the reading of the clock.

  Mounting renders first and runs the effects only when the render returns. As the source
  stands the render throws, so \<open>Mount\<close> records the error and does nothing else: no effect
  runs, no loader is called, no request is issued and no control is shown. The other
  clauses say what the handler bound to a control, to the recogniser or to a call does in
  the state it is run in; they do not ask how that state came about. The properties below
  are therefore stated of a handler in a given state, or of a run of handlers from a
  given state, and none of them goes through \<open>Mount\<close>.

  A click on a disabled button, a suggestion that is not rendered, a report of a
  recogniser that does not exist and the settling of a call that is not in flight do not
  happen: the state stays as it is. The \<open>Tabs\<close> component, which shows the controls of one
  tab at a time, is not part of the source: an event is taken whatever tab is active, so
  what holds of every run here holds of the runs the tabs allow.
\<close>

datatype event =
    Mount
  | ChangeMessage jsstring
  | KeyPress string
  | ClickSend
  | ClickVoice
  | ClickSuggestion nat
  | ClickQuickAction nat
  | SpeechResult jsstring
  | SpeechError
  | SpeechEnd
  | ChangeTab tab
  | ChangeSleep jsstring
  | ChangeWater jsstring
  | ChangeExercise jsstring
  | ChangeMood mood_option
  | ClickSave date_time
  | ChatSettles nat "chat_entry outcome"
  | RoutineSettles nat "unit outcome"
  | WeatherSettles nat "weather_snapshot outcome"
  | NewsSettles nat "news_item list outcome"
  | HistorySettles nat "chat_entry list outcome"

definition settle :: "call_site \<Rightarrow> nat \<Rightarrow> (app \<Rightarrow> axios_error + app) \<Rightarrow> app \<Rightarrow> app" where
  "settle site i resume st =
     (if i < length (inflight st) \<and> fst (inflight st ! i) = site then
        let st' = st\<lparr>inflight := take i (inflight st) @ drop (Suc i) (inflight st)\<rparr> in
        (case resume st' of
           Inr st'' \<Rightarrow> st''
         | Inl e \<Rightarrow> st'\<lparr>unhandled := unhandled st' @ [e]\<rparr>)
      else st)"

fun step :: "env \<Rightarrow> event \<Rightarrow> app \<Rightarrow> app" where
  "step E Mount st =
     (case render st of
        Inl err \<Rightarrow> st\<lparr>render_error := Some err\<rparr>
      | Inr _ \<Rightarrow> mount_effects E st)"
| "step E (ChangeMessage v) st = st\<lparr>message := v\<rparr>"
| "step E (KeyPress k) st = (if k = ''Enter'' then handleSendMessage E st else st)"
| "step E ClickSend st = (if send_disabled st then st else handleSendMessage E st)"
| "step E ClickVoice st = handleVoiceInput st"
| "step E (ClickSuggestion i) st =
     (if length (chatHistory st) = 0 \<and> i < length quickSuggestions
      then st\<lparr>message := ascii (quickSuggestions ! i)\<rparr> else st)"
| "step E (ClickQuickAction i) st =
     (if i < length quickActions then st\<lparr>message := ascii (quickActions ! i)\<rparr> else st)"
| "step E (SpeechResult transcript) st = (if recognitionRef st then onresult transcript st else st)"
| "step E SpeechError st = (if recognitionRef st then onerror st else st)"
| "step E SpeechEnd st = (if recognitionRef st then onend st else st)"
| "step E (ChangeTab t) st = st\<lparr>activeTab := t\<rparr>"
| "step E (ChangeSleep v) st = st\<lparr>routine := (routine st)\<lparr>sleep_hours := v\<rparr>\<rparr>"
| "step E (ChangeWater v) st = st\<lparr>routine := (routine st)\<lparr>water_glasses := v\<rparr>\<rparr>"
| "step E (ChangeExercise v) st = st\<lparr>routine := (routine st)\<lparr>exercise_minutes := v\<rparr>\<rparr>"
| "step E (ChangeMood v) st = st\<lparr>routine := (routine st)\<lparr>mood := ascii (option_value v)\<rparr>\<rparr>"
| "step E (ClickSave now) st = handleRoutineSave E now st"
| "step E (ChatSettles i r) st = settle Chat i (handleSendMessage_resume r) st"
| "step E (RoutineSettles i r) st = settle Routine i (handleRoutineSave_resume r) st"
| "step E (WeatherSettles i r) st = settle Weather i (loadWeather_resume r) st"
| "step E (NewsSettles i r) st = settle News i (loadNews_resume r) st"
| "step E (HistorySettles i r) st = settle History i (loadChatHistory_resume r) st"

definition run :: "env \<Rightarrow> event list \<Rightarrow> app \<Rightarrow> app" where
  "run E evs st = foldl (\<lambda>s ev. step E ev s) st evs"

text \<open>How many calls of a call site are in flight.\<close>

definition in_flight :: "call_site \<Rightarrow> app \<Rightarrow> nat" where
  "in_flight site st = length (filter (\<lambda>p. fst p = site) (inflight st))"


text \<open>
  Enter on a message that is not blank while the loading flag is set: the send button is
  disabled then, the input field is not. A run is guarded when none of its events is one.
\<close>

definition enter_while_loading :: "event \<Rightarrow> app \<Rightarrow> bool" where
  "enter_while_loading ev st \<longleftrightarrow>
     ev = KeyPress ''Enter'' \<and> isLoading st \<and> trim (message st) \<noteq> []"

fun guarded :: "env \<Rightarrow> event list \<Rightarrow> app \<Rightarrow> bool" where
  "guarded E [] st = True"
| "guarded E (ev # evs) st = (\<not> enter_while_loading ev st \<and> guarded E evs (step E ev st))"

text \<open>An event that hands the handler of a call site the data of a call that resolved.\<close>

fun resolved :: "'a outcome \<Rightarrow> bool" where
  "resolved (Resolved d) = True"
| "resolved (Rejected e) = False"

fun delivers :: "call_site \<Rightarrow> event \<Rightarrow> bool" where
  "delivers site (ChatSettles i r) = (site = Chat \<and> resolved r)"
| "delivers site (RoutineSettles i r) = (site = Routine \<and> resolved r)"
| "delivers site (WeatherSettles i r) = (site = Weather \<and> resolved r)"
| "delivers site (NewsSettles i r) = (site = News \<and> resolved r)"
| "delivers site (HistorySettles i r) = (site = History \<and> resolved r)"
| "delivers site ev = False"

section \<open>The routine entry as the data model describes it\<close>







section \<open>Inputs for the examples\<close>

definition localhost :: env where
  "localhost = \<lparr>BACKEND_URL = ''http://localhost:8001'', speech_supported = True\<rparr>"

definition noon :: date_time where
  "noon = \<lparr>year = 2024, month = 3, day = 9, hours = 12, minutes = 0, seconds = 5,
     milliseconds = 42\<rparr>"

definition hello :: chat_entry where
  "hello = ChatEntry (ascii ''hi'') (ascii ''Good morning!'')"

definition earlier :: chat_entry where
  "earlier = ChatEntry (ascii ''lunch?'') (ascii ''Dal and rice.'')"

section \<open>A blank message is not sent\<close>

lemma trim_eq_Nil_iff: "trim s = [] \<longleftrightarrow> (\<forall>c\<in>set s. isWhiteSpace c)"
proof
  assume "trim s = []"
  then have all: "\<forall>c\<in>set (dropWhile isWhiteSpace s). isWhiteSpace c"
    by (simp add: trim_def)
  have "dropWhile isWhiteSpace s = []"
  proof (cases "dropWhile isWhiteSpace s")
    case Nil
    then show ?thesis .
  next
    case (Cons c cs)
    then have "\<not> isWhiteSpace c"
      by (metis hd_dropWhile list.sel(1) list.distinct(1))
    with all Cons show ?thesis by simp
  qed
  then show "\<forall>c\<in>set s. isWhiteSpace c"
    by simp
next
  assume "\<forall>c\<in>set s. isWhiteSpace c"
  then show "trim s = []"
    by (auto simp: trim_def dest: set_dropWhileD)
qed

text \<open>
  C3. When the message is empty or holds nothing but white space, the handler returns at
  once: whether it is called, reached through the Enter key or through the send button,
  the state after it is the state before it, and with it the requests issued, the calls
  in flight, the notifications and the console.
\<close>

theorem whitespace_message_sends_nothing:
  assumes "\<forall>c\<in>set (message st). isWhiteSpace c"
  shows "handleSendMessage E st = st
    \<and> step E (KeyPress ''Enter'') st = st
    \<and> step E ClickSend st = st"
proof -
  from assms have "trim (message st) = []"
    by (simp add: trim_eq_Nil_iff)
  then show ?thesis
    by (simp add: handleSendMessage_def)
qed

theorem whitespace_message_sends_nothing_witness:
  "isWhiteSpace 0x20 \<and> isWhiteSpace 0x09 \<and> isWhiteSpace 0xA0 \<and> isWhiteSpace 0x0A
   \<and> step localhost (KeyPress ''Enter'') (initial\<lparr>message := [0x20, 0x09, 0xA0, 0x0A]\<rparr>)
      = initial\<lparr>message := [0x20, 0x09, 0xA0, 0x0A]\<rparr>
   \<and> sent (step localhost ClickSend (initial\<lparr>message := [0x20, 0x09, 0xA0, 0x0A]\<rparr>)) = []"
proof -
  have ws: "\<forall>c\<in>set (message (initial\<lparr>message := [0x20, 0x09, 0xA0, 0x0A]\<rparr>)). isWhiteSpace c"
    by (simp add: isWhiteSpace_def)
  show ?thesis
    using ws whitespace_message_sends_nothing [OF ws, of localhost]
    by (simp add: initial_def)
qed

section \<open>What sending a message does\<close>

text \<open>The call issued last is the last one in flight; when it settles, its handler resumes.\<close>

lemma settle_last:
  "settle site (length (inflight st)) k (issue site r st) =
     (case k (st\<lparr>sent := sent st @ [r]\<rparr>) of
        Inr st'' \<Rightarrow> st''
      | Inl e \<Rightarrow> st\<lparr>sent := sent st @ [r], unhandled := unhandled st @ [e]\<rparr>)"
  by (simp add: settle_def issue_def Let_def split: sum.splits)

lemma trim_hi: "trim (ascii ''hi'') = ascii ''hi''"
  by (simp add: trim_def ascii_def isWhiteSpace_def)


lemma trim_padded: "trim (ascii ''  hi '') = ascii ''hi''"
  by (simp add: trim_def ascii_def isWhiteSpace_def)

lemma ascii_not_Nil: "ascii (c # cs) \<noteq> []"
  by (simp add: ascii_def)


text \<open>
  C1. When the message is not empty after trimming, the handler, which Enter runs and a
  click on the enabled send button runs, issues exactly one request, a POST to
  \<open>/api/chat\<close> under the backend URL. When that call resolves with an entry \<open>d\<close>, the
  handler issues nothing more and puts \<open>d\<close> in front of the history it finds, so that the
  chat pane, which shows the history reversed, shows \<open>d\<close> last. The same is said of the
  whole exchange: Enter, then the call just issued resolving.
\<close>

theorem send_posts_once_and_prepends:
  assumes "trim (message st) \<noteq> []"
  shows "step E (KeyPress ''Enter'') st = handleSendMessage E st
    \<and> step E ClickSend (st\<lparr>isLoading := False\<rparr>) = handleSendMessage E (st\<lparr>isLoading := False\<rparr>)
    \<and> sent (handleSendMessage E st) =
       sent st @ [\<lparr>meth = POST, url = BACKEND_URL E @ ''/api/chat'',
                   body = Some (chat_body (message st))\<rparr>]
    \<and> (\<exists>s'. handleSendMessage_resume (Resolved d) s = Inr s'
          \<and> sent s' = sent s
          \<and> chatHistory s' = d # chatHistory s
          \<and> chat_messages s' = Exchanges (rev (chatHistory s) @ [d]))
    \<and> (let st' = run E [KeyPress ''Enter'', ChatSettles (length (inflight st)) (Resolved d)] st
        in sent st' = sent st @ [chat_request E (message st)]
         \<and> chatHistory st' = d # chatHistory st
         \<and> chat_messages st' = Exchanges (rev (chatHistory st) @ [d]))"
proof -
  have start: "handleSendMessage E st =
      issue Chat (chat_request E (message st)) (st\<lparr>message := [], isLoading := True\<rparr>)"
    using assms by (simp add: handleSendMessage_def)
  have one: "sent (handleSendMessage E st) =
       sent st @ [\<lparr>meth = POST, url = BACKEND_URL E @ ''/api/chat'',
                   body = Some (chat_body (message st))\<rparr>]"
    by (simp add: start issue_def chat_request_def API_def)
  have resume: "\<exists>s'. handleSendMessage_resume (Resolved d) s = Inr s'
          \<and> sent s' = sent s
          \<and> chatHistory s' = d # chatHistory s
          \<and> chat_messages s' = Exchanges (rev (chatHistory s) @ [d])"
    by (simp add: handleSendMessage_resume_def handleSendMessage_try_def chat_messages_def)
  have whole: "run E [KeyPress ''Enter'', ChatSettles (length (inflight st)) (Resolved d)] st =
      st\<lparr>message := [], sent := sent st @ [chat_request E (message st)],
         chatHistory := d # chatHistory st,
         toasts := toasts st @ [ToastSuccess ''Got your recommendation!''],
         isLoading := False\<rparr>"
    using settle_last [of Chat "st\<lparr>message := [], isLoading := True\<rparr>"
        "handleSendMessage_resume (Resolved d)" "chat_request E (message st)"]
    by (simp add: run_def start handleSendMessage_resume_def handleSendMessage_try_def)
  have click: "step E ClickSend (st\<lparr>isLoading := False\<rparr>) =
      handleSendMessage E (st\<lparr>isLoading := False\<rparr>)"
    using assms by (simp add: send_disabled_def)
  show ?thesis
    using one resume click by (simp add: whole chat_messages_def)
qed

theorem send_posts_once_and_prepends_witness:
  "trim (ascii ''hi'') = ascii ''hi''
   \<and> sent (handleSendMessage localhost (initial\<lparr>message := ascii ''hi'', chatHistory := [earlier]\<rparr>))
      = [\<lparr>meth = POST, url = ''http://localhost:8001/api/chat'',
           body = Some (chat_body (ascii ''hi''))\<rparr>]
   \<and> chatHistory (run localhost [KeyPress ''Enter'', ChatSettles 0 (Resolved hello)]
        (initial\<lparr>message := ascii ''hi'', chatHistory := [earlier]\<rparr>)) = [hello, earlier]
   \<and> chat_messages (run localhost [KeyPress ''Enter'', ChatSettles 0 (Resolved hello)]
        (initial\<lparr>message := ascii ''hi'', chatHistory := [earlier]\<rparr>))
      = Exchanges [earlier, hello]"
proof -
  note t = trim_hi
  have h: "trim (message (initial\<lparr>message := ascii ''hi'', chatHistory := [earlier]\<rparr>)) \<noteq> []"
    by (simp add: t ascii_not_Nil)
  show ?thesis
    using t send_posts_once_and_prepends [OF h, of localhost hello]
    by (simp add: initial_def localhost_def Let_def)
qed

text \<open>
  C2. When the call rejects, the handler logs the error, raises the error notification and
  clears the loading flag, and nothing else: the history is what it was. Issuing the call
  does not touch the history either, so across the whole exchange (Enter, then the call
  just issued rejecting) the history is unchanged and the notification is raised.
\<close>

theorem failed_send_keeps_history:
  assumes "trim (message st) \<noteq> []"
  shows "chatHistory (handleSendMessage E st) = chatHistory st
    \<and> handleSendMessage_resume (Rejected e) s =
        Inr (s\<lparr>console := console s @ [(''Chat error:'', e)],
               toasts := toasts s @ [ToastError ''Failed to get recommendation. Please try again.''],
               isLoading := False\<rparr>)
    \<and> (let st' = run E [KeyPress ''Enter'', ChatSettles (length (inflight st)) (Rejected e)] st
        in chatHistory st' = chatHistory st
         \<and> toasts st' = toasts st @ [ToastError ''Failed to get recommendation. Please try again.'']
         \<and> console st' = console st @ [(''Chat error:'', e)])"
proof -
  have start: "handleSendMessage E st =
      issue Chat (chat_request E (message st)) (st\<lparr>message := [], isLoading := True\<rparr>)"
    using assms by (simp add: handleSendMessage_def)
  have resume: "handleSendMessage_resume (Rejected e) s =
        Inr (s\<lparr>console := console s @ [(''Chat error:'', e)],
               toasts := toasts s @ [ToastError ''Failed to get recommendation. Please try again.''],
               isLoading := False\<rparr>)" for s
    by (simp add: handleSendMessage_resume_def handleSendMessage_try_def
        handleSendMessage_catch_def)
  have whole: "run E [KeyPress ''Enter'', ChatSettles (length (inflight st)) (Rejected e)] st =
      st\<lparr>message := [], sent := sent st @ [chat_request E (message st)],
         console := console st @ [(''Chat error:'', e)],
         toasts := toasts st @ [ToastError ''Failed to get recommendation. Please try again.''],
         isLoading := False\<rparr>"
    using settle_last [of Chat "st\<lparr>message := [], isLoading := True\<rparr>"
        "handleSendMessage_resume (Rejected e)" "chat_request E (message st)"]
    by (simp add: run_def start resume)
  show ?thesis
    by (simp add: whole resume) (simp add: start issue_def)
qed

theorem failed_send_keeps_history_witness:
  "trim (ascii ''hi'') = ascii ''hi''
   \<and> chatHistory (run localhost [KeyPress ''Enter'', ChatSettles 0 (Rejected NetworkError)]
        (initial\<lparr>message := ascii ''hi'', chatHistory := [earlier]\<rparr>)) = [earlier]
   \<and> toasts (run localhost [KeyPress ''Enter'', ChatSettles 0 (Rejected NetworkError)]
        (initial\<lparr>message := ascii ''hi'', chatHistory := [earlier]\<rparr>))
      = [ToastError ''Failed to get recommendation. Please try again.'']"
proof -
  note t = trim_hi
  have h: "trim (message (initial\<lparr>message := ascii ''hi'', chatHistory := [earlier]\<rparr>)) \<noteq> []"
    by (simp add: t ascii_not_Nil)
  show ?thesis
    using t failed_send_keeps_history [OF h, of localhost NetworkError]
    by (simp add: initial_def Let_def)
qed

text \<open>
  C10. The \<open>message\<close> member of the body is the message as the input field held it, white
  space at its ends included: trimming only decides whether to send. The field is empty
  once the handler has issued the call.
\<close>

theorem chat_payload_is_raw_message:
  assumes "trim (message st) \<noteq> []"
  shows "sent (handleSendMessage E st) =
       sent st @ [\<lparr>meth = POST, url = API E @ ''/chat'',
          body = Some (JObj [(''message'', JStr (message st)),
                             (''user_id'', JStr (ascii ''default_user'')),
                             (''location'', JObj [(''lat'', JNum (Decimal 286139 4)),
                                                 (''lon'', JNum (Decimal 772090 4))])])\<rparr>]
    \<and> message (handleSendMessage E st) = []"
  using assms
  by (simp add: handleSendMessage_def issue_def chat_request_def chat_body_def Let_def)

theorem chat_payload_is_raw_message_witness:
  "trim (ascii ''  hi '') = ascii ''hi''
   \<and> map body (sent (handleSendMessage localhost (initial\<lparr>message := ascii ''  hi ''\<rparr>)))
      = [Some (JObj [(''message'', JStr (ascii ''  hi '')),
                     (''user_id'', JStr (ascii ''default_user'')),
                     (''location'', JObj [(''lat'', JNum (Decimal 286139 4)),
                                         (''lon'', JNum (Decimal 772090 4))])])]
   \<and> message (handleSendMessage localhost (initial\<lparr>message := ascii ''  hi ''\<rparr>)) = []"
proof -
  note t = trim_padded
  have h: "trim (message (initial\<lparr>message := ascii ''  hi ''\<rparr>)) \<noteq> []"
    by (simp add: t ascii_not_Nil)
  show ?thesis
    using t chat_payload_is_raw_message [OF h, of localhost]
    by (simp add: initial_def)
qed

section \<open>What saving the routine does\<close>

text \<open>
  C4. A save issues exactly one request, a POST to \<open>/api/routine\<close> under the backend URL.
  When the call resolves the handler raises the success notification and sets the four
  fields to the empty string; when it rejects the handler logs the error and raises the
  error notification, and the form is what it was. The last two conjuncts say it of the
  whole exchange: the click, then the call just issued settling.
\<close>

theorem routine_save_posts_once:
  "sent (handleRoutineSave E now st) =
       sent st @ [\<lparr>meth = POST, url = BACKEND_URL E @ ''/api/routine'',
                   body = Some (routine_body now (routine st))\<rparr>]
   \<and> handleRoutineSave_resume (Resolved ()) s =
        Inr (s\<lparr>toasts := toasts s @ [ToastSuccess ''Routine saved successfully!''],
               routine := empty_routine\<rparr>)
   \<and> handleRoutineSave_resume (Rejected e) s =
        Inr (s\<lparr>console := console s @ [(''Routine save error:'', e)],
               toasts := toasts s @ [ToastError ''Failed to save routine.'']\<rparr>)
   \<and> run E [ClickSave now, RoutineSettles (length (inflight st)) (Resolved ())] st =
        st\<lparr>sent := sent st @ [routine_request E now (routine st)],
           toasts := toasts st @ [ToastSuccess ''Routine saved successfully!''],
           routine := empty_routine\<rparr>
   \<and> run E [ClickSave now, RoutineSettles (length (inflight st)) (Rejected e)] st =
        st\<lparr>sent := sent st @ [routine_request E now (routine st)],
           console := console st @ [(''Routine save error:'', e)],
           toasts := toasts st @ [ToastError ''Failed to save routine.'']\<rparr>"
proof -
  have ok: "handleRoutineSave_resume (Resolved ()) s =
        Inr (s\<lparr>toasts := toasts s @ [ToastSuccess ''Routine saved successfully!''],
               routine := empty_routine\<rparr>)" for s
    by (simp add: handleRoutineSave_resume_def handleRoutineSave_try_def empty_routine_def)
  have ko: "handleRoutineSave_resume (Rejected e) s =
        Inr (s\<lparr>console := console s @ [(''Routine save error:'', e)],
               toasts := toasts s @ [ToastError ''Failed to save routine.'']\<rparr>)" for s
    by (simp add: handleRoutineSave_resume_def handleRoutineSave_try_def)
  have one: "sent (handleRoutineSave E now st) =
       sent st @ [\<lparr>meth = POST, url = BACKEND_URL E @ ''/api/routine'',
                   body = Some (routine_body now (routine st))\<rparr>]"
    by (simp add: handleRoutineSave_def issue_def routine_request_def API_def)
  have run_ok: "run E [ClickSave now, RoutineSettles (length (inflight st)) (Resolved ())] st =
        st\<lparr>sent := sent st @ [routine_request E now (routine st)],
           toasts := toasts st @ [ToastSuccess ''Routine saved successfully!''],
           routine := empty_routine\<rparr>"
    using settle_last [of Routine st "handleRoutineSave_resume (Resolved ())"
        "routine_request E now (routine st)"]
    by (simp add: run_def handleRoutineSave_def ok)
  have run_ko: "run E [ClickSave now, RoutineSettles (length (inflight st)) (Rejected e)] st =
        st\<lparr>sent := sent st @ [routine_request E now (routine st)],
           console := console st @ [(''Routine save error:'', e)],
           toasts := toasts st @ [ToastError ''Failed to save routine.'']\<rparr>"
    using settle_last [of Routine st "handleRoutineSave_resume (Rejected e)"
        "routine_request E now (routine st)"]
    by (simp add: run_def handleRoutineSave_def ko)
  show ?thesis
    using one ok ko run_ok run_ko by simp
qed

section \<open>Runs of events\<close>

lemma run_snoc: "run E (evs @ [ev]) st = step E ev (run E evs st)"
  by (simp add: run_def)

lemma run_Nil: "run E [] st = st"
  by (simp add: run_def)


lemmas handler_defs =
  render_def mount_effects_def
  loadWeather_def loadNews_def loadChatHistory_def issue_def
  loadWeather_resume_def loadWeather_try_def loadNews_resume_def loadNews_try_def
  loadChatHistory_resume_def loadChatHistory_try_def
  handleSendMessage_def handleSendMessage_resume_def handleSendMessage_try_def
  handleSendMessage_catch_def handleVoiceInput_def onresult_def onerror_def onend_def
  handleRoutineSave_def handleRoutineSave_resume_def handleRoutineSave_try_def

lemmas eval_defs =
  run_def handler_defs settle_def Let_def initial_def empty_routine_def localhost_def
  noon_def hello_def earlier_def API_def chat_request_def routine_request_def
  send_disabled_def in_flight_def quickSuggestions_def quickActions_def


subsection \<open>Mounting\<close>

text \<open>
  As the source stands mounting issues nothing: the render throws before any effect can
  run. The effects themselves, had they run, would have called the three loaders.
\<close>

lemma mount_throws: "step E Mount st = st\<lparr>render_error := Some (ReferenceError ''News'')\<rparr>"
  by (simp add: render_def)

lemma mount_effects_call_loaders:
  "sent (mount_effects E st) =
     sent st @ [\<lparr>meth = GET, url = BACKEND_URL E @ ''/api/weather'', body = None\<rparr>,
                \<lparr>meth = GET, url = BACKEND_URL E @ ''/api/news'', body = None\<rparr>,
                \<lparr>meth = GET, url = BACKEND_URL E @ ''/api/chat/history/default_user'',
                   body = None\<rparr>]"
  by (simp add: mount_effects_def loadWeather_def loadNews_def loadChatHistory_def issue_def
      API_def)

subsection \<open>No error leaves a handler\<close>



subsection \<open>The mood is the value of an option of the select\<close>




subsection \<open>A slice changes only when data for it arrives\<close>

lemma step_weather:
  assumes "\<not> delivers Weather ev"
  shows "weather (step E ev st) = weather st"
proof (cases ev)
  case (WeatherSettles i r)
  with assms obtain e where "r = Rejected e"
    by (cases r) auto
  with WeatherSettles show ?thesis
    by (simp add: settle_def Let_def loadWeather_resume_def loadWeather_try_def)
qed (auto simp: handler_defs settle_def Let_def split: sum.splits outcome.splits)

lemma run_weather:
  assumes "\<not> list_ex (delivers Weather) evs"
  shows "weather (run E evs st) = weather st"
  using assms
  by (induction evs rule: rev_induct) (simp_all add: run_Nil run_snoc step_weather)

lemma step_news:
  assumes "\<not> delivers News ev"
  shows "news (step E ev st) = news st"
proof (cases ev)
  case (NewsSettles i r)
  with assms obtain e where "r = Rejected e"
    by (cases r) auto
  with NewsSettles show ?thesis
    by (simp add: settle_def Let_def loadNews_resume_def loadNews_try_def)
qed (auto simp: handler_defs settle_def Let_def split: sum.splits outcome.splits)

lemma run_news:
  assumes "\<not> list_ex (delivers News) evs"
  shows "news (run E evs st) = news st"
  using assms
  by (induction evs rule: rev_induct) (simp_all add: run_Nil run_snoc step_news)

lemma step_chatHistory:
  assumes "\<not> delivers History ev" and "\<not> delivers Chat ev"
  shows "chatHistory (step E ev st) = chatHistory st"
proof (cases ev)
  case (HistorySettles i r)
  with assms obtain e where "r = Rejected e"
    by (cases r) auto
  with HistorySettles show ?thesis
    by (simp add: settle_def Let_def loadChatHistory_resume_def loadChatHistory_try_def)
next
  case (ChatSettles i r)
  with assms obtain e where "r = Rejected e"
    by (cases r) auto
  with ChatSettles show ?thesis
    by (simp add: settle_def Let_def handleSendMessage_resume_def handleSendMessage_try_def
        handleSendMessage_catch_def)
qed (auto simp: handler_defs settle_def Let_def split: sum.splits outcome.splits)

lemma run_chatHistory:
  assumes "\<not> list_ex (delivers History) evs" and "\<not> list_ex (delivers Chat) evs"
  shows "chatHistory (run E evs st) = chatHistory st"
  using assms
  by (induction evs rule: rev_induct) (simp_all add: run_Nil run_snoc step_chatHistory)

subsection \<open>Chat calls in flight in a guarded run\<close>







text \<open>A run in which Enter is not pressed at all is guarded.\<close>

lemma guarded_without_Enter:
  assumes "KeyPress ''Enter'' \<notin> set evs"
  shows "guarded E evs st"
  using assms by (induction evs arbitrary: st) (auto simp: enter_while_loading_def)

section \<open>Calls in flight\<close>




section \<open>Failures of the backend\<close>



text \<open>A loader is called and its call, the one issued last, rejects.\<close>

lemma loadWeather_fails:
  "run E [WeatherSettles (length (inflight st)) (Rejected e)] (loadWeather E st) =
     st\<lparr>sent := sent st @ [\<lparr>meth = GET, url = BACKEND_URL E @ ''/api/weather'', body = None\<rparr>],
        console := console st @ [(''Weather loading error:'', e)]\<rparr>"
  using settle_last [of Weather st "loadWeather_resume (Rejected e)"
      "\<lparr>meth = GET, url = BACKEND_URL E @ ''/api/weather'', body = None\<rparr>"]
  by (simp add: run_def loadWeather_def loadWeather_resume_def loadWeather_try_def API_def)

lemma loadNews_fails:
  "run E [NewsSettles (length (inflight st)) (Rejected e)] (loadNews E st) =
     st\<lparr>sent := sent st @ [\<lparr>meth = GET, url = BACKEND_URL E @ ''/api/news'', body = None\<rparr>],
        console := console st @ [(''News loading error:'', e)]\<rparr>"
  using settle_last [of News st "loadNews_resume (Rejected e)"
      "\<lparr>meth = GET, url = BACKEND_URL E @ ''/api/news'', body = None\<rparr>"]
  by (simp add: run_def loadNews_def loadNews_resume_def loadNews_try_def API_def)

lemma loadChatHistory_fails:
  "run E [HistorySettles (length (inflight st)) (Rejected e)] (loadChatHistory E st) =
     st\<lparr>sent := sent st @ [\<lparr>meth = GET, url = BACKEND_URL E @ ''/api/chat/history/default_user'',
                              body = None\<rparr>],
        console := console st @ [(''Chat history loading error:'', e)]\<rparr>"
  using settle_last [of History st "loadChatHistory_resume (Rejected e)"
      "\<lparr>meth = GET, url = BACKEND_URL E @ ''/api/chat/history/default_user'', body = None\<rparr>"]
  by (simp add: run_def loadChatHistory_def loadChatHistory_resume_def loadChatHistory_try_def
      API_def)

text \<open>
  C7. When the fetch of a loader rejects, the handler returns normally: it writes the
  error to the console, raises no notification and leaves its slice of the state as it
  is. Said of the whole call, in whatever state the loader is called: the GET is issued,
  the error is logged, and nothing else changes. The three slices start as null, the empty
  list and the empty list, and a run of handlers from any state leaves the weather as it
  was when no weather data arrives in it, the news as they were when no news arrive, and
  the chat history as it was when neither a history nor a chat entry arrives. The loaders
  are run here as handlers in a given state. In the source they are called by the mount
  effect alone, which does not run as long as the render throws.
\<close>

theorem loader_failure_leaves_slice_empty:
  "(\<exists>st'. loadWeather_resume (Rejected e) st = Inr st'
        \<and> weather st' = weather st \<and> toasts st' = toasts st
        \<and> console st' = console st @ [(''Weather loading error:'', e)])
   \<and> (\<exists>st'. loadNews_resume (Rejected e) st = Inr st'
        \<and> news st' = news st \<and> toasts st' = toasts st
        \<and> console st' = console st @ [(''News loading error:'', e)])
   \<and> (\<exists>st'. loadChatHistory_resume (Rejected e) st = Inr st'
        \<and> chatHistory st' = chatHistory st \<and> toasts st' = toasts st
        \<and> console st' = console st @ [(''Chat history loading error:'', e)])
   \<and> run E [WeatherSettles (length (inflight st)) (Rejected e)] (loadWeather E st) =
      st\<lparr>sent := sent st @ [\<lparr>meth = GET, url = BACKEND_URL E @ ''/api/weather'', body = None\<rparr>],
         console := console st @ [(''Weather loading error:'', e)]\<rparr>
   \<and> run E [NewsSettles (length (inflight st)) (Rejected e)] (loadNews E st) =
      st\<lparr>sent := sent st @ [\<lparr>meth = GET, url = BACKEND_URL E @ ''/api/news'', body = None\<rparr>],
         console := console st @ [(''News loading error:'', e)]\<rparr>
   \<and> run E [HistorySettles (length (inflight st)) (Rejected e)] (loadChatHistory E st) =
      st\<lparr>sent := sent st @ [\<lparr>meth = GET, url = BACKEND_URL E @ ''/api/chat/history/default_user'',
                               body = None\<rparr>],
         console := console st @ [(''Chat history loading error:'', e)]\<rparr>
   \<and> weather initial = None \<and> news initial = [] \<and> chatHistory initial = []
   \<and> (\<not> list_ex (delivers Weather) evs \<longrightarrow> weather (run E evs st) = weather st)
   \<and> (\<not> list_ex (delivers News) evs \<longrightarrow> news (run E evs st) = news st)
   \<and> (\<not> list_ex (delivers History) evs \<and> \<not> list_ex (delivers Chat) evs \<longrightarrow>
        chatHistory (run E evs st) = chatHistory st)"
proof -
  have w: "\<exists>st'. loadWeather_resume (Rejected e) st = Inr st'
        \<and> weather st' = weather st \<and> toasts st' = toasts st
        \<and> console st' = console st @ [(''Weather loading error:'', e)]"
    by (simp add: loadWeather_resume_def loadWeather_try_def)
  have n: "\<exists>st'. loadNews_resume (Rejected e) st = Inr st'
        \<and> news st' = news st \<and> toasts st' = toasts st
        \<and> console st' = console st @ [(''News loading error:'', e)]"
    by (simp add: loadNews_resume_def loadNews_try_def)
  have h: "\<exists>st'. loadChatHistory_resume (Rejected e) st = Inr st'
        \<and> chatHistory st' = chatHistory st \<and> toasts st' = toasts st
        \<and> console st' = console st @ [(''Chat history loading error:'', e)]"
    by (simp add: loadChatHistory_resume_def loadChatHistory_try_def)
  have i: "weather initial = None" "news initial = []" "chatHistory initial = []"
    by (simp_all add: initial_def)
  have rw: "\<not> list_ex (delivers Weather) evs \<longrightarrow> weather (run E evs st) = weather st"
    by (simp add: run_weather)
  have rn: "\<not> list_ex (delivers News) evs \<longrightarrow> news (run E evs st) = news st"
    by (simp add: run_news)
  have rh: "\<not> list_ex (delivers History) evs \<and> \<not> list_ex (delivers Chat) evs \<longrightarrow>
        chatHistory (run E evs st) = chatHistory st"
    by (simp add: run_chatHistory)
  from w n h loadWeather_fails [of E st e] loadNews_fails [of E st e]
    loadChatHistory_fails [of E st e] i rw rn rh
  show ?thesis
    by (intro conjI)
qed

text \<open>
  The run of the witness starts where the three loaders have been called with the message
  "hi" in the field. The user sends the message; then the four calls reject, the history
  first. The three slices hold what they held at the start, which is what they hold
  initially.
\<close>

theorem loader_failure_leaves_slice_empty_witness:
  "weather (run localhost
      [KeyPress ''Enter'',
       HistorySettles 2 (Rejected NetworkError), WeatherSettles 0 (Rejected (BadStatus 500)),
       NewsSettles 0 (Rejected NetworkError), ChatSettles 0 (Rejected NetworkError)]
      (loadChatHistory localhost (loadNews localhost (loadWeather localhost
        (initial\<lparr>message := ascii ''hi''\<rparr>))))) = None
   \<and> news (run localhost
      [KeyPress ''Enter'',
       HistorySettles 2 (Rejected NetworkError), WeatherSettles 0 (Rejected (BadStatus 500)),
       NewsSettles 0 (Rejected NetworkError), ChatSettles 0 (Rejected NetworkError)]
      (loadChatHistory localhost (loadNews localhost (loadWeather localhost
        (initial\<lparr>message := ascii ''hi''\<rparr>))))) = []
   \<and> chatHistory (run localhost
      [KeyPress ''Enter'',
       HistorySettles 2 (Rejected NetworkError), WeatherSettles 0 (Rejected (BadStatus 500)),
       NewsSettles 0 (Rejected NetworkError), ChatSettles 0 (Rejected NetworkError)]
      (loadChatHistory localhost (loadNews localhost (loadWeather localhost
        (initial\<lparr>message := ascii ''hi''\<rparr>))))) = []
   \<and> console (run localhost
      [KeyPress ''Enter'',
       HistorySettles 2 (Rejected NetworkError), WeatherSettles 0 (Rejected (BadStatus 500)),
       NewsSettles 0 (Rejected NetworkError), ChatSettles 0 (Rejected NetworkError)]
      (loadChatHistory localhost (loadNews localhost (loadWeather localhost
        (initial\<lparr>message := ascii ''hi''\<rparr>)))))
     = [(''Chat history loading error:'', NetworkError),
        (''Weather loading error:'', BadStatus 500),
        (''News loading error:'', NetworkError),
        (''Chat error:'', NetworkError)]"
proof -
  let ?st = "loadChatHistory localhost (loadNews localhost (loadWeather localhost
        (initial\<lparr>message := ascii ''hi''\<rparr>)))"
  let ?evs = "[KeyPress ''Enter'',
       HistorySettles 2 (Rejected NetworkError), WeatherSettles 0 (Rejected (BadStatus 500)),
       NewsSettles 0 (Rejected NetworkError), ChatSettles 0 (Rejected NetworkError)]"
  have w: "\<not> list_ex (delivers Weather) ?evs"
    and n: "\<not> list_ex (delivers News) ?evs"
    and h: "\<not> list_ex (delivers History) ?evs \<and> \<not> list_ex (delivers Chat) ?evs"
    by simp_all
  have s: "weather ?st = None" "news ?st = []" "chatHistory ?st = []"
    by (simp_all add: eval_defs)
  have c: "console (run localhost ?evs ?st)
     = [(''Chat history loading error:'', NetworkError),
        (''Weather loading error:'', BadStatus 500),
        (''News loading error:'', NetworkError),
        (''Chat error:'', NetworkError)]"
    by (simp add: eval_defs trim_hi ascii_not_Nil)
  show ?thesis
    using w n h s c
      loader_failure_leaves_slice_empty [where E = localhost and evs = ?evs and st = ?st]
    by metis
qed

section \<open>The body of the routine request\<close>















end
